theory Spec2Isabelle
  imports Main "HOL-Library.Word"
begin

section \<open>The Executive of cpp-ethereum (libethereum/Executive.h)\<close>

text \<open>
  The class \<^verbatim>\<open>Executive\<close> is the message-call/contract-creation executor. Its header
  defines the constructor, the accessors, \<^verbatim>\<open>collectResult\<close> and the byte-level
  \<^verbatim>\<open>initialize\<close> inline; these are embedded here as the header writes them. The types
  the header only names (\<^verbatim>\<open>State\<close>, \<^verbatim>\<open>LastHashes\<close>, \<^verbatim>\<open>ExtVM\<close>, \<^verbatim>\<open>Transaction\<close>,
  \<^verbatim>\<open>LogEntry\<close>) are type parameters of the record of member variables.
\<close>

subsection \<open>Basic types\<close>

type_synonym u256 = "256 word"
type_synonym h160 = "160 word"
type_synonym Address = h160
type_synonym bytes = "8 word list"
type_synonym bigint = int

text \<open>
  \<^verbatim>\<open>bytesRef\<close> is a view (start, count) into a buffer owned by the caller; the
  default-constructed view is the null start with count 0.
\<close>

type_synonym bytesRef = "nat \<times> nat"

text \<open>
  Modelled from the spec: the enumeration \<^verbatim>\<open>TransactionException\<close>, declared in
  Transaction.h, which is not among the sources. The header uses its member
  \<^verbatim>\<open>None\<close> only; the other tags are the ones section 3 of the specification lists
  (\<open>DepthExceeded\<close> is the tag of its "call-depth exceeded" outcome).
\<close>

datatype TransactionException =
    None_TE
  | InvalidSignature
  | InvalidNonce
  | NotEnoughCash
  | BlockGasLimitReached
  | OutOfGasIntrinsic
  | OutOfGasBase
  | OutOfGas
  | BadInstruction
  | BadJumpDestination
  | StackUnderflow
  | StackOverflow
  | RevertInstruction
  | InvalidAddress
  | DepthExceeded

subsection \<open>The member variables\<close>

text \<open>
  One field per member variable, in the order of the header. \<open>m_s\<close> is a reference to
  the caller's \<^verbatim>\<open>State\<close>: the field holds the state referred to. \<open>m_ext\<close> is a shared
  pointer (\<open>None\<close> is the null pointer), \<open>m_res\<close> a plain pointer to the caller's
  \<^verbatim>\<open>ExecutionResult\<close> (\<open>None\<close> is \<^verbatim>\<open>nullptr\<close>, \<open>Some a\<close> the address \<open>a\<close>).
\<close>

record ('s, 'h, 'x, 't, 'l) Executive =
  m_s :: 's
  m_lastHashes :: 'h
  m_ext :: "'x option"
  m_outRef :: bytesRef
  m_res :: "nat option"
  m_newAddress :: Address
  m_depth :: "32 word"
  m_isCreation :: bool
  m_excepted :: TransactionException
  m_gas :: u256
  m_t :: 't
  m_logs :: "'l list"
  m_gasRequired :: bigint
  m_gasCost :: bigint
  m_totalCost :: bigint

subsection \<open>Constructor\<close>

text \<open>
  \<^verbatim>\<open>Executive(State& _s, LastHashes const& _lh, unsigned _level = 0):
     m_s(_s), m_lastHashes(_lh), m_depth(_level) {}\<close>

  The three named members take the arguments; every other member takes its default
  member initialiser (\<^verbatim>\<open>m_res = nullptr\<close>, \<^verbatim>\<open>m_depth = 0\<close> overridden by the argument,
  \<^verbatim>\<open>m_isCreation = false\<close>, \<^verbatim>\<open>m_excepted = TransactionException::None\<close>, \<^verbatim>\<open>m_gas = 0\<close>),
  or is default-constructed where it has none: a null shared pointer, an empty view,
  the empty address, an empty vector, a \<^verbatim>\<open>bigint\<close> 0. The default-constructed
  \<^verbatim>\<open>Transaction()\<close> is the parameter \<open>t0\<close>, its class being declared elsewhere.
\<close>

text \<open>
  Modelled from the spec: the empty address, which a default-constructed \<^verbatim>\<open>h160\<close> is
  (the class is declared in libdevcore, not among the sources): all bytes zero.
\<close>

definition ZeroAddress :: Address where
  "ZeroAddress = 0"

definition Executive_ctor ::
  "'t \<Rightarrow> 's \<Rightarrow> 'h \<Rightarrow> 32 word \<Rightarrow> ('s, 'h, 'x, 't, 'l) Executive" where
  "Executive_ctor t0 s lh level =
     \<lparr> m_s = s,
       m_lastHashes = lh,
       m_ext = None,
       m_outRef = (0, 0),
       m_res = None,
       m_newAddress = ZeroAddress,
       m_depth = level,
       m_isCreation = False,
       m_excepted = None_TE,
       m_gas = 0,
       m_t = t0,
       m_logs = [],
       m_gasRequired = 0,
       m_gasCost = 0,
       m_totalCost = 0 \<rparr>"

text \<open>The call \<^verbatim>\<open>Executive(_s, _lh)\<close>: the default argument \<^verbatim>\<open>_level = 0\<close> is passed.\<close>

definition Executive_ctor_default ::
  "'t \<Rightarrow> 's \<Rightarrow> 'h \<Rightarrow> ('s, 'h, 'x, 't, 'l) Executive" where
  "Executive_ctor_default t0 s lh = Executive_ctor t0 s lh 0"

subsection \<open>Accessors\<close>

text \<open>\<^verbatim>\<open>LogEntries const& logs() const { return m_logs; }\<close>\<close>

definition logs :: "('s, 'h, 'x, 't, 'l) Executive \<Rightarrow> 'l list" where
  "logs e = m_logs e"

text \<open>\<^verbatim>\<open>u256 gas() const { return m_gas; }\<close>\<close>

definition gas :: "('s, 'h, 'x, 't, 'l) Executive \<Rightarrow> u256" where
  "gas e = m_gas e"

text \<open>\<^verbatim>\<open>h160 newAddress() const { return m_newAddress; }\<close>\<close>

definition newAddress :: "('s, 'h, 'x, 't, 'l) Executive \<Rightarrow> h160" where
  "newAddress e = m_newAddress e"

text \<open>\<^verbatim>\<open>bool excepted() const { return m_excepted != TransactionException::None; }\<close>\<close>

definition excepted :: "('s, 'h, 'x, 't, 'l) Executive \<Rightarrow> bool" where
  "excepted e = (m_excepted e \<noteq> None_TE)"

text \<open>
  \<^verbatim>\<open>void collectResult(ExecutionResult& _res) { m_res = &_res; }\<close>

  The argument \<open>r\<close> is the address of the caller's result object.
\<close>

definition collectResult ::
  "nat \<Rightarrow> ('s, 'h, 'x, 't, 'l) Executive \<Rightarrow> ('s, 'h, 'x, 't, 'l) Executive" where
  "collectResult r e = e\<lparr>m_res := Some r\<rparr>"

subsection \<open>The byte-level initialize\<close>

text \<open>
  \<^verbatim>\<open>void initialize(bytesConstRef _transaction)
     { initialize(Transaction(_transaction, CheckTransaction::None)); }\<close>

  The constructor \<^verbatim>\<open>Transaction(bytesConstRef, CheckTransaction)\<close>, the enumeration
  \<^verbatim>\<open>CheckTransaction\<close> and the overload \<^verbatim>\<open>initialize(Transaction const&)\<close> are declared
  or defined outside the header, so they are parameters: \<open>ctor\<close> parses (\<open>Inl\<close> is a thrown
  exception), \<open>chkNone\<close> is \<^verbatim>\<open>CheckTransaction::None\<close>, \<open>init\<close> is the overload on a
  parsed transaction. Evaluation order is that of C++: the argument is constructed
  first, and an exception thrown by the constructor leaves the call of \<open>init\<close> out.
\<close>

definition throwing_bind :: "'ex + 'a \<Rightarrow> ('a \<Rightarrow> 'ex + 'b) \<Rightarrow> 'ex + 'b" where
  "throwing_bind m f = (case m of Inl x \<Rightarrow> Inl x | Inr a \<Rightarrow> f a)"

definition initialize_bytes ::
  "(bytes \<Rightarrow> 'chk \<Rightarrow> 'ex + 't) \<Rightarrow> 'chk \<Rightarrow> ('t \<Rightarrow> 'e \<Rightarrow> 'ex + 'e) \<Rightarrow> bytes \<Rightarrow> 'e \<Rightarrow> 'ex + 'e" where
  "initialize_bytes ctor chkNone init transaction e =
     throwing_bind (ctor transaction chkNone) (\<lambda>t. init t e)"

text \<open>
  The claim's side of the comparison: parse the bytes with no checking, then hand the
  transaction to the overload on transactions.
\<close>

definition initialize_of_parsed ::
  "(bytes \<Rightarrow> 'chk \<Rightarrow> 'ex + 't) \<Rightarrow> 'chk \<Rightarrow> ('t \<Rightarrow> 'e \<Rightarrow> 'ex + 'e) \<Rightarrow> bytes \<Rightarrow> 'e \<Rightarrow> 'ex + 'e" where
  "initialize_of_parsed ctor chkNone init b e =
     (case ctor b chkNone of
        Inl x \<Rightarrow> Inl x
      | Inr t \<Rightarrow> init t e)"

section \<open>The operations defined in Executive.cpp\<close>

text \<open>
  The header declares \<^verbatim>\<open>execute\<close>, \<^verbatim>\<open>finalize\<close>, \<^verbatim>\<open>gasUsed\<close>, \<^verbatim>\<open>create\<close>, \<^verbatim>\<open>call\<close>,
  \<^verbatim>\<open>accrueSubState\<close> and \<^verbatim>\<open>go\<close>; their bodies, the ledger, the transaction and the
  interpreter are in files that are not among the sources. They are written here from
  the specification, operation by operation, on the record of member variables above
  with its type parameters instantiated.
\<close>

subsection \<open>Ledger\<close>

text \<open>
  Modelled from the spec: the account-state ledger (class \<^verbatim>\<open>State\<close>), an external
  collaborator of which section 6 gives the interface: balance, nonce, code and storage
  per address, and the block's beneficiary, who receives the fees.
\<close>

record Account =
  acc_balance :: u256
  acc_nonce :: u256
  acc_code :: bytes
  acc_storage :: "u256 \<Rightarrow> u256"

record State =
  accounts :: "Address \<Rightarrow> Account option"
  beneficiary :: Address

text \<open>Modelled from the spec: an account that has just come into existence.\<close>

definition emptyAccount :: Account where
  "emptyAccount = \<lparr> acc_balance = 0, acc_nonce = 0, acc_code = [], acc_storage = (\<lambda>_. 0) \<rparr>"

text \<open>Modelled from the spec: the account at an address, a new one if none exists.\<close>

definition accountOrNew :: "State \<Rightarrow> Address \<Rightarrow> Account" where
  "accountOrNew s a = (case accounts s a of None \<Rightarrow> emptyAccount | Some x \<Rightarrow> x)"

text \<open>Modelled from the spec: \<^verbatim>\<open>getBalance\<close>, \<^verbatim>\<open>getNonce\<close> and \<^verbatim>\<open>getCode\<close> of the ledger view.\<close>

definition getBalance :: "State \<Rightarrow> Address \<Rightarrow> u256" where
  "getBalance s a = acc_balance (accountOrNew s a)"

definition getNonce :: "State \<Rightarrow> Address \<Rightarrow> u256" where
  "getNonce s a = acc_nonce (accountOrNew s a)"

definition getCode :: "State \<Rightarrow> Address \<Rightarrow> bytes" where
  "getCode s a = acc_code (accountOrNew s a)"

text \<open>
  Modelled from the spec: \<^verbatim>\<open>addBalance\<close> and \<^verbatim>\<open>subBalance\<close> of the ledger view. Adding
  to an absent account creates it. The arithmetic is that of \<^verbatim>\<open>u256\<close>, modulo \<open>2 ^ 256\<close>;
  the specification puts the check that the sender can pay into \<^verbatim>\<open>initialize\<close>.
\<close>

definition addBalance :: "State \<Rightarrow> Address \<Rightarrow> u256 \<Rightarrow> State" where
  "addBalance s a v =
     s\<lparr>accounts := (accounts s)(a \<mapsto> (accountOrNew s a)\<lparr>acc_balance := getBalance s a + v\<rparr>)\<rparr>"

definition subBalance :: "State \<Rightarrow> Address \<Rightarrow> u256 \<Rightarrow> State" where
  "subBalance s a v =
     s\<lparr>accounts := (accounts s)(a \<mapsto> (accountOrNew s a)\<lparr>acc_balance := getBalance s a - v\<rparr>)\<rparr>"

text \<open>Modelled from the spec: a transfer of value, out of the sender and into the receiver.\<close>

definition transferBalance :: "State \<Rightarrow> Address \<Rightarrow> Address \<Rightarrow> u256 \<Rightarrow> State" where
  "transferBalance s from to v = addBalance (subBalance s from v) to v"

text \<open>Modelled from the spec: \<^verbatim>\<open>setCode\<close> of the ledger view.\<close>

definition setCode :: "State \<Rightarrow> Address \<Rightarrow> bytes \<Rightarrow> State" where
  "setCode s a c = s\<lparr>accounts := (accounts s)(a \<mapsto> (accountOrNew s a)\<lparr>acc_code := c\<rparr>)\<rparr>"

text \<open>Modelled from the spec: \<^verbatim>\<open>kill\<close> of the ledger view, for each address of a set.\<close>

definition killAll :: "State \<Rightarrow> Address set \<Rightarrow> State" where
  "killAll s A = s\<lparr>accounts := (\<lambda>a. if a \<in> A then None else accounts s a)\<rparr>"

subsection \<open>Transactions, call parameters, substate\<close>

text \<open>
  Modelled from the spec: the class \<^verbatim>\<open>Transaction\<close> (section 3): sender (optional,
  derived from the signature), recipient (absent for contract creation), nonce, gas
  limit, gas price, value, payload.
\<close>

record Transaction =
  tx_sender :: "Address option"
  tx_receiveAddress :: "Address option"
  tx_nonce :: u256
  tx_gas :: u256
  tx_gasPrice :: u256
  tx_value :: u256
  tx_data :: bytes

text \<open>
  Modelled from the spec: the code flag of a transaction (creation or call); the
  recipient is absent exactly for a contract creation.
\<close>

definition isCreation :: "Transaction \<Rightarrow> bool" where
  "isCreation t = (tx_receiveAddress t = None)"

text \<open>
  Modelled from the spec: the structure \<^verbatim>\<open>CallParameters\<close> (section 3): receiver, sender,
  value, gas price, gas limit, input bytes, output buffer.
\<close>

record CallParameters =
  cp_senderAddress :: Address
  cp_receiveAddress :: Address
  cp_value :: u256
  cp_gasPrice :: u256
  cp_gas :: u256
  cp_data :: bytes
  cp_out :: bytesRef

text \<open>Modelled from the spec: \<^verbatim>\<open>LogEntry\<close> (section 3): address, topics, data.\<close>

record LogEntry =
  log_address :: Address
  log_topics :: "u256 list"
  log_data :: bytes

text \<open>
  Modelled from the spec: \<^verbatim>\<open>SubState\<close> (section 3): the addresses to self-destruct, the
  log entries in order, and the refund counter.
\<close>

record SubState =
  sub_suicides :: "Address set"
  sub_logs :: "LogEntry list"
  sub_refunds :: u256

text \<open>Modelled from the spec: the substate of an execution that has done nothing.\<close>

definition emptySubState :: SubState where
  "emptySubState = \<lparr> sub_suicides = {}, sub_logs = [], sub_refunds = 0 \<rparr>"

text \<open>
  Modelled from the spec: the externality adapter (class \<^verbatim>\<open>ExtVM\<close>, section 4.4) that
  the executor builds for one run of the interpreter: the addresses, value, gas price,
  input and code of the invocation, its depth, the substate the run accumulates, and
  the ledger as it was when the invocation was prepared, which is what a rollback
  restores.
\<close>

record ExtVM =
  ext_myAddress :: Address
  ext_caller :: Address
  ext_origin :: Address
  ext_value :: u256
  ext_gasPrice :: u256
  ext_data :: bytes
  ext_code :: bytes
  ext_depth :: "32 word"
  ext_sub :: SubState
  ext_orig :: State

text \<open>Modelled from the spec: the historical hash source, the hashes of the last blocks.\<close>

type_synonym LastHashes = "u256 list"

type_synonym Exec = "(State, LastHashes, ExtVM, Transaction, LogEntry) Executive"

subsection \<open>Cost model\<close>

text \<open>
  Modelled from the spec: the cost constants and the call-depth limit, whose values
  neither the header nor the specification gives: the base cost of a transaction, the
  cost of a zero and of a non-zero payload byte, the surcharge of a contract creation,
  the deposit per byte of deployed code, and the configured maximum depth.
\<close>

record Schedule =
  c_txGas :: nat
  c_txDataZeroGas :: nat
  c_txDataNonZeroGas :: nat
  c_txCreateGas :: nat
  c_createDataGas :: nat
  c_depthLimit :: nat

text \<open>
  Modelled from the spec: \<^verbatim>\<open>intrinsicGas(transaction)\<close> (section 4.1): base cost, plus the
  cost of each zero byte and of each non-zero byte of the payload, plus the surcharge
  of a contract creation; a wide integer.
\<close>

definition intrinsicGas :: "Schedule \<Rightarrow> Transaction \<Rightarrow> bigint" where
  "intrinsicGas c t =
     int (c_txGas c
          + sum_list (map (\<lambda>b. if b = 0 then c_txDataZeroGas c else c_txDataNonZeroGas c) (tx_data t))
          + (if isCreation t then c_txCreateGas c else 0))"

subsection \<open>Bare call and create\<close>

text \<open>
  Modelled from the spec: \<^verbatim>\<open>Executive::call(CallParameters const&, u256 const&, Address
  const&)\<close>, defined in Executive.cpp (section 4.3): "transfers value from sender to
  receiver (creating the receiver if absent); if receiver has no code, returns true
  immediately (pure value transfer, gas = intrinsic only); otherwise prepares
  interpreter invocation and returns false." The gas of the operation is the gas
  handed over, and the output buffer is noted for the interpreter.
\<close>

definition call :: "CallParameters \<Rightarrow> u256 \<Rightarrow> Address \<Rightarrow> Exec \<Rightarrow> Exec \<times> bool" where
  "call p gasPrice origin e =
     (let s1 = transferBalance (m_s e) (cp_senderAddress p) (cp_receiveAddress p) (cp_value p);
          e1 = e\<lparr>m_s := s1, m_outRef := cp_out p, m_gas := cp_gas p\<rparr>
      in if getCode s1 (cp_receiveAddress p) = [] then (e1, True)
         else (e1\<lparr>m_ext := Some
                 \<lparr> ext_myAddress = cp_receiveAddress p,
                   ext_caller = cp_senderAddress p,
                   ext_origin = origin,
                   ext_value = cp_value p,
                   ext_gasPrice = gasPrice,
                   ext_data = cp_data p,
                   ext_code = getCode s1 (cp_receiveAddress p),
                   ext_depth = m_depth e,
                   ext_sub = emptySubState,
                   ext_orig = s1 \<rparr>\<rparr>, False))"

text \<open>
  Modelled from the spec: \<^verbatim>\<open>Executive::create\<close>, defined in Executive.cpp (section 4.3):
  "transfers endowment from sender to the deterministically computed new address; if
  depth exceeds the limit, fails closed (treated as an exception, balance transfer
  still occurs per the existing semantics) rather than aborting; returns false (go()
  required) whenever code execution is needed, true for trivial cases." The new
  address is computed from the sender and the sender's nonce by \<open>newAddr\<close>, a parameter
  (the hashing is outside the executor). A creation refused for its depth has all
  its gas consumed (section 8); a creation with no code to run is a trivial case.
\<close>

definition create ::
  "Schedule \<Rightarrow> (Address \<Rightarrow> u256 \<Rightarrow> Address) \<Rightarrow>
   Address \<Rightarrow> u256 \<Rightarrow> u256 \<Rightarrow> u256 \<Rightarrow> bytes \<Rightarrow> Address \<Rightarrow> Exec \<Rightarrow> Exec \<times> bool" where
  "create c newAddr txSender endowment gasPrice gas0 code origin e =
     (let a = newAddr txSender (getNonce (m_s e) txSender);
          s1 = transferBalance (m_s e) txSender a endowment;
          e1 = e\<lparr>m_s := s1, m_newAddress := a, m_isCreation := True, m_gas := gas0\<rparr>
      in if c_depthLimit c < unat (m_depth e)
         then (e1\<lparr>m_excepted := DepthExceeded, m_gas := 0\<rparr>, True)
         else if code = [] then (e1, True)
         else (e1\<lparr>m_ext := Some
                 \<lparr> ext_myAddress = a,
                   ext_caller = txSender,
                   ext_origin = origin,
                   ext_value = endowment,
                   ext_gasPrice = gasPrice,
                   ext_data = [],
                   ext_code = code,
                   ext_depth = m_depth e,
                   ext_sub = emptySubState,
                   ext_orig = s1 \<rparr>\<rparr>, False))"

text \<open>
  Modelled from the spec: \<^verbatim>\<open>Executive::accrueSubState\<close>, defined in Executive.cpp
  (section 4.3): "merges this operation's SubState into the caller's".
\<close>

definition accrueSubState :: "Exec \<Rightarrow> SubState \<Rightarrow> SubState" where
  "accrueSubState e parent =
     (case m_ext e of
        None \<Rightarrow> parent
      | Some x \<Rightarrow>
          \<lparr> sub_suicides = sub_suicides parent \<union> sub_suicides (ext_sub x),
            sub_logs = sub_logs parent @ sub_logs (ext_sub x),
            sub_refunds = sub_refunds parent + sub_refunds (ext_sub x) \<rparr>)"

subsection \<open>The transaction path\<close>

text \<open>
  Modelled from the spec: \<^verbatim>\<open>Executive::execute\<close>, defined in Executive.cpp (section 4.2):
  "consumes intrinsic gas from the gas budget; if this is a contract-creation
  transaction, computes the deterministic new contract address and prepares a create
  invocation; otherwise prepares a call invocation (value transfer, then code lookup).
  Returns true if no interpreter run is needed; returns false if the interpreter must
  run." The sender buys the whole gas limit at the gas price here: \<^verbatim>\<open>initialize\<close> only
  validates, and \<^verbatim>\<open>finalize\<close> gives the unused part back. The specification leaves
  \<^verbatim>\<open>execute\<close> without a valid \<^verbatim>\<open>initialize\<close> before it undefined; with no sender
  the model records the invalid signature and is done.
\<close>

definition execute :: "Schedule \<Rightarrow> (Address \<Rightarrow> u256 \<Rightarrow> Address) \<Rightarrow> Exec \<Rightarrow> Exec \<times> bool" where
  "execute c newAddr e =
     (let t = m_t e in
      case tx_sender t of
        None \<Rightarrow> (e\<lparr>m_excepted := InvalidSignature\<rparr>, True)
      | Some a \<Rightarrow>
          (let g = tx_gas t - word_of_int (intrinsicGas c t);
               e1 = e\<lparr>m_s := subBalance (m_s e) a (tx_gas t * tx_gasPrice t)\<rparr>
           in case tx_receiveAddress t of
                None \<Rightarrow> create c newAddr a (tx_value t) (tx_gasPrice t) g (tx_data t) a e1
              | Some r \<Rightarrow>
                  call \<lparr> cp_senderAddress = a,
                         cp_receiveAddress = r,
                         cp_value = tx_value t,
                         cp_gasPrice = tx_gasPrice t,
                         cp_gas = g,
                         cp_data = tx_data t,
                         cp_out = (0, 0) \<rparr> (tx_gasPrice t) a e1))"

text \<open>
  Modelled from the spec: the bytecode interpreter, an opaque collaborator (sections 1
  and 6): "run(gasBudget, codeBytes, inputBytes, externality, onStep) ->
  (gasRemaining, outputBytes, exceptionOrNone)". The externality is the adapter and the
  ledger it writes to; what the run leaves of both is part of the result. The type of
  the tracing callback is the parameter \<open>'cb\<close>.
\<close>

record VMResult =
  vm_gas :: u256
  vm_output :: bytes
  vm_exception :: TransactionException
  vm_state :: State
  vm_sub :: SubState

type_synonym 'cb VM = "u256 \<Rightarrow> bytes \<Rightarrow> bytes \<Rightarrow> ExtVM \<Rightarrow> State \<Rightarrow> 'cb option \<Rightarrow> VMResult"

text \<open>
  Modelled from the spec: \<^verbatim>\<open>Executive::go\<close>, defined in Executive.cpp (section 4.2):
  "builds the externality adapter (depth = parent depth + 1; fails immediately with a
  depth-exceeded exception, not a crash, if depth exceeds the global call-depth limit)
  and invokes the interpreter with remaining gas, code, input, and an optional
  per-instruction observation callback. On return: remaining gas and exception (if
  any) are recorded; for creation, if no exception, the returned output becomes the
  deployed code and is charged a per-byte deposit cost; insufficient remaining gas
  for this deposit is itself an OutOfGas exception applied retroactively." The output
  of a call goes to the caller's buffer, which is outside the record.
\<close>

definition go :: "Schedule \<Rightarrow> 'cb VM \<Rightarrow> 'cb option \<Rightarrow> Exec \<Rightarrow> Exec \<times> bool" where
  "go c run onStep e =
     (case m_ext e of
        None \<Rightarrow> (e, True)
      | Some x \<Rightarrow>
          if c_depthLimit c < unat (m_depth e) + 1
          then (e\<lparr>m_excepted := DepthExceeded, m_gas := 0\<rparr>, True)
          else
            (let x1 = x\<lparr>ext_depth := m_depth e + 1\<rparr>;
                 r = run (m_gas e) (ext_code x) (ext_data x) x1 (m_s e) onStep;
                 e1 = e\<lparr>m_s := vm_state r,
                        m_ext := Some (x1\<lparr>ext_sub := vm_sub r\<rparr>),
                        m_excepted := vm_exception r,
                        m_gas := vm_gas r\<rparr>;
                 deposit = int (length (vm_output r)) * int (c_createDataGas c)
             in if m_isCreation e \<and> vm_exception r = None_TE
                then (if deposit \<le> uint (vm_gas r)
                      then (e1\<lparr>m_s := setCode (vm_state r) (m_newAddress e) (vm_output r),
                               m_gas := vm_gas r - word_of_int deposit\<rparr>, True)
                      else (e1\<lparr>m_excepted := OutOfGas\<rparr>, True))
                else (e1, True)))"

text \<open>
  Modelled from the spec: \<^verbatim>\<open>Executive::gasUsed\<close>, defined in Executive.cpp (section 4.2):
  "gasUsed = gasLimit - gas".
\<close>

definition gasUsed :: "Exec \<Rightarrow> u256" where
  "gasUsed e = tx_gas (m_t e) - m_gas e"

text \<open>Modelled from the spec: the refund counter accumulated by the execution.\<close>

definition refundCounter :: "Exec \<Rightarrow> u256" where
  "refundCounter e = (case m_ext e of None \<Rightarrow> 0 | Some x \<Rightarrow> sub_refunds (ext_sub x))"

text \<open>
  Modelled from the spec: \<^verbatim>\<open>Executive::finalize\<close>, defined in Executive.cpp (section 4.2):
  "Computes gasUsed = gasLimit - gas. If an exception occurred anywhere in the call
  tree, the SubState accumulated during this execution is discarded entirely (no logs,
  no refunds, no self-destructs), and all state changes made during interpreter
  execution are rolled back. If no exception occurred, refunds are applied: the
  smaller of (accumulated refund counter) and (gasUsed / 2) is added back to remaining
  gas before computing the final gas charge; self-destructs scheduled in SubState take
  effect and logs become visible. The difference gasLimit - finalGas priced at
  gasPrice is transferred to the executing entity's fee recipient; any unused gas is
  refunded to the sender at gasPrice."
\<close>

definition finalize :: "Exec \<Rightarrow> Exec" where
  "finalize e =
     (let t = m_t e;
          sub = (if excepted e then emptySubState
                 else (case m_ext e of None \<Rightarrow> emptySubState | Some x \<Rightarrow> ext_sub x));
          s0 = (if excepted e
                then (case m_ext e of None \<Rightarrow> m_s e | Some x \<Rightarrow> ext_orig x)
                else m_s e);
          g = (if excepted e then m_gas e
               else m_gas e + min (refundCounter e) (gasUsed e div 2));
          s1 = (case tx_sender t of None \<Rightarrow> s0 | Some a \<Rightarrow> addBalance s0 a (g * tx_gasPrice t));
          s2 = addBalance s1 (beneficiary s1) ((tx_gas t - g) * tx_gasPrice t);
          s3 = killAll s2 (sub_suicides sub)
      in e\<lparr>m_s := s3, m_gas := g, m_logs := sub_logs sub\<rparr>)"

subsection \<open>Examples\<close>

text \<open>
  A fee schedule, a ledger with one funded account (address 1, with beneficiary 9), a
  message-call transaction from address 1 to the absent address 2, an executive that
  holds it, call parameters for the same transfer, a scheme for new addresses, and an
  executive whose interpreter run has ended without exception, with 40000 of 100000
  gas left and a refund counter of 50000.
\<close>

definition ex_schedule :: Schedule where
  "ex_schedule =
     \<lparr> c_txGas = 21000, c_txDataZeroGas = 4, c_txDataNonZeroGas = 68,
       c_txCreateGas = 32000, c_createDataGas = 200, c_depthLimit = 1024 \<rparr>"

definition ex_ledger :: State where
  "ex_ledger =
     \<lparr> accounts = [1 \<mapsto> emptyAccount\<lparr>acc_balance := 100000\<rparr>], beneficiary = 9 \<rparr>"

definition ex_transaction :: Transaction where
  "ex_transaction =
     \<lparr> tx_sender = Some 1, tx_receiveAddress = Some 2, tx_nonce = 0, tx_gas = 21000,
       tx_gasPrice = 1, tx_value = 5, tx_data = [] \<rparr>"

definition ex_executive :: Exec where
  "ex_executive = Executive_ctor ex_transaction ex_ledger [] 0"

definition ex_parameters :: CallParameters where
  "ex_parameters =
     \<lparr> cp_senderAddress = 1, cp_receiveAddress = 2, cp_value = 5, cp_gasPrice = 1,
       cp_gas = 1000, cp_data = [], cp_out = (0, 0) \<rparr>"

definition ex_newAddress :: "Address \<Rightarrow> u256 \<Rightarrow> Address" where
  "ex_newAddress a n = a + 10"

definition ex_ran :: Exec where
  "ex_ran =
     ex_executive
       \<lparr> m_ext := Some
           \<lparr> ext_myAddress = 2, ext_caller = 1, ext_origin = 1, ext_value = 5,
             ext_gasPrice = 1, ext_data = [], ext_code = [0],
             ext_depth = 1,
             ext_sub = \<lparr> sub_suicides = {}, sub_logs = [], sub_refunds = 50000 \<rparr>,
             ext_orig = ex_ledger \<rparr>,
         m_t := ex_transaction\<lparr>tx_gas := 100000\<rparr>,
         m_gas := 40000 \<rparr>"

section \<open>Properties of the header's inline members\<close>

text \<open>
  C7: at any point of its life, \<^verbatim>\<open>excepted()\<close> is true exactly when the recorded tag
  \<open>m_excepted\<close> is not \<^verbatim>\<open>TransactionException::None\<close>. The tag is one member holding one
  value, so one tag is the authority; whatever tag is recorded, \<^verbatim>\<open>excepted()\<close> tells
  whether it differs from \<^verbatim>\<open>None\<close>, and it is false when \<^verbatim>\<open>None\<close> is recorded.
\<close>

theorem excepted_iff_tag_recorded:
  "excepted e = (m_excepted e \<noteq> None_TE)
   \<and> excepted (e\<lparr>m_excepted := x\<rparr>) = (x \<noteq> None_TE)
   \<and> \<not> excepted (e\<lparr>m_excepted := None_TE\<rparr>)"
  by (simp add: excepted_def)

text \<open>
  C8: for every state, source of last hashes and level, the executive just constructed
  has \<^verbatim>\<open>gas() == 0\<close>, \<^verbatim>\<open>excepted() == false\<close>, the empty address as \<^verbatim>\<open>newAddress()\<close>, no
  result sink, the creation flag false and the given level as its depth; when the level
  is omitted the depth is 0.
\<close>

theorem Executive_ctor_fresh:
  "(let e = (Executive_ctor t0 s lh level :: ('s, 'h, 'x, 't, 'l) Executive)
    in gas e = 0 \<and> \<not> excepted e \<and> newAddress e = ZeroAddress \<and> m_res e = None
       \<and> m_isCreation e = False \<and> m_depth e = level)
   \<and> (let e = (Executive_ctor_default t0 s lh :: ('s, 'h, 'x, 't, 'l) Executive)
      in gas e = 0 \<and> \<not> excepted e \<and> newAddress e = ZeroAddress \<and> m_res e = None
         \<and> m_isCreation e = False \<and> m_depth e = 0)"
  by (simp add: Executive_ctor_def Executive_ctor_default_def gas_def excepted_def newAddress_def)

text \<open>
  C9: for every byte string, \<^verbatim>\<open>initialize(bytes)\<close> does what parsing the bytes with
  \<^verbatim>\<open>CheckTransaction::None\<close> and calling \<^verbatim>\<open>initialize\<close> on the parsed transaction does,
  whatever the parser and the overload on transactions are: it checks nothing itself,
  and an exception of the parser comes out as it is.
\<close>

theorem initialize_bytes_delegates:
  "initialize_bytes ctor chkNone init b e = initialize_of_parsed ctor chkNone init b e"
  by (cases "ctor b chkNone")
    (simp_all add: initialize_bytes_def initialize_of_parsed_def throwing_bind_def)

text \<open>
  C10: \<^verbatim>\<open>collectResult(sink)\<close> records the address of the sink and nothing else: the
  executive before and after differ at most in \<open>m_res\<close> (they are equal once
  \<open>m_res\<close> is overwritten with any common value), so \<^verbatim>\<open>gas()\<close>, \<^verbatim>\<open>excepted()\<close>,
  \<^verbatim>\<open>newAddress()\<close>, \<^verbatim>\<open>logs()\<close> and the depth are unchanged; a second call replaces the
  sink registered by the first.
\<close>

theorem collectResult_frame:
  "(\<forall>x. (collectResult r e)\<lparr>m_res := x\<rparr> = e\<lparr>m_res := x\<rparr>)
   \<and> m_res (collectResult r e) = Some r
   \<and> gas (collectResult r e) = gas e
   \<and> excepted (collectResult r e) = excepted e
   \<and> newAddress (collectResult r e) = newAddress e
   \<and> logs (collectResult r e) = logs e
   \<and> m_depth (collectResult r e) = m_depth e
   \<and> m_res (collectResult r2 (collectResult r1 e)) = Some r2
   \<and> collectResult r2 (collectResult r1 e) = collectResult r2 e"
  by (simp add: collectResult_def gas_def excepted_def newAddress_def logs_def)

section \<open>Properties of the operations written from the specification\<close>

subsection \<open>The ledger\<close>

lemma accountOrNew_update:
  "accountOrNew (s\<lparr>accounts := (accounts s)(a \<mapsto> x)\<rparr>) b = (if b = a then x else accountOrNew s b)"
  by (simp add: accountOrNew_def)

lemma getBalance_addBalance:
  "getBalance (addBalance s a v) b = (if b = a then getBalance s a + v else getBalance s b)"
  by (simp add: addBalance_def getBalance_def accountOrNew_def)

lemma getBalance_subBalance:
  "getBalance (subBalance s a v) b = (if b = a then getBalance s a - v else getBalance s b)"
  by (simp add: subBalance_def getBalance_def accountOrNew_def)

lemma getCode_addBalance: "getCode (addBalance s a v) b = getCode s b"
  by (simp add: addBalance_def getCode_def accountOrNew_def)

lemma getCode_subBalance: "getCode (subBalance s a v) b = getCode s b"
  by (simp add: subBalance_def getCode_def accountOrNew_def)

lemma getCode_transferBalance: "getCode (transferBalance s a b v) x = getCode s x"
  by (simp add: transferBalance_def getCode_addBalance getCode_subBalance)

lemma accounts_addBalance_other: "b \<noteq> a \<Longrightarrow> accounts (addBalance s a v) b = accounts s b"
  by (simp add: addBalance_def)

lemma accounts_subBalance_other: "b \<noteq> a \<Longrightarrow> accounts (subBalance s a v) b = accounts s b"
  by (simp add: subBalance_def)

lemma accounts_transferBalance_other:
  "x \<noteq> a \<Longrightarrow> x \<noteq> b \<Longrightarrow> accounts (transferBalance s a b v) x = accounts s x"
  by (simp add: transferBalance_def accounts_addBalance_other accounts_subBalance_other)

lemma exists_addBalance: "\<exists>y. accounts (addBalance s a v) a = Some y"
  by (simp add: addBalance_def)

lemma exists_transferBalance: "\<exists>y. accounts (transferBalance s a b v) b = Some y"
  by (simp add: transferBalance_def exists_addBalance)

lemma beneficiary_addBalance: "beneficiary (addBalance s a v) = beneficiary s"
  by (simp add: addBalance_def)

lemma getBalance_transferBalance:
  "a \<noteq> b \<Longrightarrow> getBalance (transferBalance s a b v) b = getBalance s b + v"
  "a \<noteq> b \<Longrightarrow> getBalance (transferBalance s a b v) a = getBalance s a - v"
  by (simp_all add: transferBalance_def getBalance_addBalance getBalance_subBalance)
lemma accounts_killAll_empty: "accounts (killAll s {}) b = accounts s b"
  by (simp add: killAll_def)

lemma getBalance_killAll: "b \<notin> A \<Longrightarrow> getBalance (killAll s A) b = getBalance s b"
  by (simp add: killAll_def getBalance_def accountOrNew_def)

lemma unat_min_word: "unat (min (a :: 'a::len word) b) = min (unat a) (unat b)"
  by (simp add: min_def word_le_nat_alt)

lemma half_refund_bound:
  fixes a b r :: nat
  assumes "a \<le> b"
  shows "a + min r ((b - a) div 2) \<le> b"
proof -
  have "min r ((b - a) div 2) \<le> (b - a) div 2"
    by simp
  also have "\<dots> \<le> b - a"
    by simp
  finally show ?thesis
    using assms by arith
qed

lemma refund_no_overflow:
  fixes g L r :: u256
  assumes "g \<le> L"
  shows "unat (g + min r ((L - g) div 2)) = unat g + min (unat r) ((unat L - unat g) div 2)"
    and "g + min r ((L - g) div 2) \<le> L"
proof -
  have le: "unat g \<le> unat L"
    using assms by (simp add: word_le_nat_alt)
  have d: "unat ((L - g) div 2) = (unat L - unat g) div 2"
    using assms by (simp add: unat_div unat_sub)
  have m: "unat (min r ((L - g) div 2)) = min (unat r) ((unat L - unat g) div 2)"
    by (simp add: unat_min_word d)
  have bound: "unat g + min (unat r) ((unat L - unat g) div 2) \<le> unat L"
    using le by (rule half_refund_bound)
  have "unat L < 2 ^ LENGTH(256)"
    by (rule unsigned_less)
  with bound have "unat g + unat (min r ((L - g) div 2)) < 2 ^ LENGTH(256)"
    by (simp only: m)
  then have s: "unat (g + min r ((L - g) div 2)) = unat g + unat (min r ((L - g) div 2))"
    by (simp only: unat_add_lem)
  show "unat (g + min r ((L - g) div 2)) = unat g + min (unat r) ((unat L - unat g) div 2)"
    by (simp only: s m)
  then show "g + min r ((L - g) div 2) \<le> L"
    using bound by (simp only: word_le_nat_alt)
qed
lemma uint_intrinsicGas:
  assumes "intrinsicGas c t \<le> uint (L :: u256)"
  shows "uint (word_of_int (intrinsicGas c t) :: u256) = intrinsicGas c t"
proof -
  have "0 \<le> intrinsicGas c t"
    by (simp add: intrinsicGas_def)
  moreover have "intrinsicGas c t < 2 ^ LENGTH(256)"
    using assms uint_bounded [of L] by linarith
  ultimately show ?thesis
    by (simp only: uint_word_of_int_eq take_bit_int_eq_self)
qed

lemma call_no_code:
  assumes "getCode (m_s e) (cp_receiveAddress p) = []"
  shows "call p gasPrice origin e =
           (e\<lparr>m_s := transferBalance (m_s e) (cp_senderAddress p) (cp_receiveAddress p) (cp_value p),
              m_outRef := cp_out p, m_gas := cp_gas p\<rparr>, True)"
  using assms by (simp add: call_def Let_def getCode_transferBalance)

subsection \<open>Refunds at finalize\<close>

text \<open>
  C2: for an execution that ended without exception, \<^verbatim>\<open>finalize\<close> adds to the remaining
  gas the smaller of the refund counter and half of the gas used so far (the gas limit
  less the gas remaining before the refund), and \<^verbatim>\<open>gasUsed()\<close> is then the gas limit less
  the remaining gas after the refund. When the remaining gas does not exceed the gas
  limit, nothing wraps around: the sums are those of the natural numbers. The fee paid
  to the beneficiary is the gas used after the refund at the gas price.
\<close>

theorem finalize_refund:
  assumes "\<not> excepted e"
  shows "gasUsed (finalize e) = tx_gas (m_t e) - gas (finalize e)
         \<and> gas (finalize e) = gas e + min (refundCounter e) (gasUsed e div 2)
         \<and> (gas e \<le> tx_gas (m_t e) \<longrightarrow>
               gas (finalize e) \<le> tx_gas (m_t e)
               \<and> unat (gas (finalize e))
                   = unat (gas e) + min (unat (refundCounter e)) ((unat (tx_gas (m_t e)) - unat (gas e)) div 2)
               \<and> unat (gasUsed (finalize e)) = unat (tx_gas (m_t e)) - unat (gas (finalize e)))
         \<and> (\<forall>a. tx_sender (m_t e) = Some a \<and> a \<noteq> beneficiary (m_s e)
                  \<and> beneficiary (m_s e) \<notin> (case m_ext e of None \<Rightarrow> {} | Some x \<Rightarrow> sub_suicides (ext_sub x))
               \<longrightarrow> getBalance (m_s (finalize e)) (beneficiary (m_s e))
                     = getBalance (m_s e) (beneficiary (m_s e))
                       + gasUsed (finalize e) * tx_gasPrice (m_t e))"
proof -
  have g: "m_gas (finalize e) = m_gas e + min (refundCounter e) ((tx_gas (m_t e) - m_gas e) div 2)"
    using assms by (simp add: finalize_def Let_def gasUsed_def)
  have t: "m_t (finalize e) = m_t e"
    by (simp add: finalize_def Let_def)
  have a: "gasUsed (finalize e) = tx_gas (m_t e) - gas (finalize e)"
    by (simp add: gasUsed_def gas_def t)
  have b: "gas (finalize e) = gas e + min (refundCounter e) (gasUsed e div 2)"
    by (simp add: gas_def g gasUsed_def)
  have c: "gas (finalize e) \<le> tx_gas (m_t e)
           \<and> unat (gas (finalize e))
               = unat (gas e) + min (unat (refundCounter e)) ((unat (tx_gas (m_t e)) - unat (gas e)) div 2)
           \<and> unat (gasUsed (finalize e)) = unat (tx_gas (m_t e)) - unat (gas (finalize e))"
    if le: "gas e \<le> tx_gas (m_t e)"
  proof -
    from le have le': "m_gas e \<le> tx_gas (m_t e)"
      by (simp add: gas_def)
    have 1: "gas (finalize e) \<le> tx_gas (m_t e)"
      using refund_no_overflow(2) [OF le'] by (simp add: gas_def g)
    have 2: "unat (gas (finalize e))
               = unat (gas e) + min (unat (refundCounter e)) ((unat (tx_gas (m_t e)) - unat (gas e)) div 2)"
      using refund_no_overflow(1) [OF le'] by (simp add: gas_def g)
    have 3: "unat (gasUsed (finalize e)) = unat (tx_gas (m_t e)) - unat (gas (finalize e))"
      using 1 by (simp add: a unat_sub)
    from 1 2 3 show ?thesis by simp
  qed
  have d: "getBalance (m_s (finalize e)) (beneficiary (m_s e))
             = getBalance (m_s e) (beneficiary (m_s e)) + gasUsed (finalize e) * tx_gasPrice (m_t e)"
    if s: "tx_sender (m_t e) = Some a" and n: "a \<noteq> beneficiary (m_s e)"
      and k: "beneficiary (m_s e) \<notin> (case m_ext e of None \<Rightarrow> {} | Some x \<Rightarrow> sub_suicides (ext_sub x))"
    for a
  proof -
    define g' where "g' = m_gas e + min (refundCounter e) (gasUsed e div 2)"
    define A where "A = (case m_ext e of None \<Rightarrow> {} | Some x \<Rightarrow> sub_suicides (ext_sub x))"
    have st: "m_s (finalize e) =
        killAll (addBalance (addBalance (m_s e) a (g' * tx_gasPrice (m_t e))) (beneficiary (m_s e))
                   ((tx_gas (m_t e) - g') * tx_gasPrice (m_t e))) A"
      using assms s
      by (simp add: finalize_def Let_def g'_def A_def beneficiary_addBalance emptySubState_def
          split: option.split)
    have gu: "gasUsed (finalize e) = tx_gas (m_t e) - g'"
      by (simp add: gasUsed_def t g g'_def)
    from k have "beneficiary (m_s e) \<notin> A"
      by (simp add: A_def)
    then show ?thesis
      using n by (simp add: st gu getBalance_killAll getBalance_addBalance)
  qed
  from a b c d show ?thesis by blast
qed

theorem finalize_refund_witness:
  "\<not> excepted ex_ran
   \<and> gas ex_ran = 40000 \<and> refundCounter ex_ran = 50000 \<and> gasUsed ex_ran = 60000
   \<and> gas (finalize ex_ran) = 70000
   \<and> gasUsed (finalize ex_ran) = 30000"
  using finalize_refund [of ex_ran]
  by (simp add: ex_ran_def ex_executive_def ex_transaction_def Executive_ctor_def
      excepted_def gas_def refundCounter_def gasUsed_def)

subsection \<open>A bare create beyond the depth limit\<close>

text \<open>
  C4: a bare \<^verbatim>\<open>create\<close> at a depth beyond the configured limit returns normally, done,
  with the depth-exceeded tag recorded and no interpreter invocation prepared; the
  endowment has nevertheless moved from the sender to the new address, which exists
  afterwards, and no other account has changed.
\<close>

theorem create_beyond_depth_transfers_then_fails:
  assumes "c_depthLimit c < unat (m_depth e)"
  shows "let a = newAddr txSender (getNonce (m_s e) txSender);
             r = create c newAddr txSender endowment gasPrice gas0 code origin e
         in snd r
            \<and> m_excepted (fst r) = DepthExceeded
            \<and> excepted (fst r)
            \<and> newAddress (fst r) = a
            \<and> m_ext (fst r) = m_ext e
            \<and> m_s (fst r) = transferBalance (m_s e) txSender a endowment
            \<and> accounts (m_s (fst r)) a \<noteq> None
            \<and> (txSender \<noteq> a \<longrightarrow>
                 getBalance (m_s (fst r)) a = getBalance (m_s e) a + endowment
                 \<and> getBalance (m_s (fst r)) txSender = getBalance (m_s e) txSender - endowment)
            \<and> (\<forall>b. b \<noteq> a \<and> b \<noteq> txSender \<longrightarrow> accounts (m_s (fst r)) b = accounts (m_s e) b)"
  using assms
  by (simp add: create_def Let_def excepted_def newAddress_def getBalance_transferBalance
      accounts_transferBalance_other exists_transferBalance)


theorem create_beyond_depth_witness:
  "c_depthLimit ex_schedule < unat (m_depth (ex_executive\<lparr>m_depth := 1025\<rparr>))
   \<and> snd (create ex_schedule ex_newAddress 1 7 1 50000 [96] 1 (ex_executive\<lparr>m_depth := 1025\<rparr>))
   \<and> m_excepted (fst (create ex_schedule ex_newAddress 1 7 1 50000 [96] 1 (ex_executive\<lparr>m_depth := 1025\<rparr>)))
       = DepthExceeded
   \<and> getBalance (m_s (fst (create ex_schedule ex_newAddress 1 7 1 50000 [96] 1 (ex_executive\<lparr>m_depth := 1025\<rparr>)))) 11
       = 7
   \<and> getBalance (m_s (fst (create ex_schedule ex_newAddress 1 7 1 50000 [96] 1 (ex_executive\<lparr>m_depth := 1025\<rparr>)))) 1
       = 99993"
proof -
  let ?e = "ex_executive\<lparr>m_depth := 1025\<rparr>"
  let ?r = "create ex_schedule ex_newAddress 1 7 1 50000 [96] 1 ?e"
  have h: "c_depthLimit ex_schedule < unat (m_depth ?e)"
    by (simp add: ex_schedule_def)
  have a: "ex_newAddress 1 n = 11" for n
    by (simp add: ex_newAddress_def)
  have b: "getBalance (m_s ex_executive) 11 = 0" "getBalance (m_s ex_executive) 1 = 100000"
    by (simp_all add: ex_executive_def Executive_ctor_def ex_ledger_def getBalance_def
        accountOrNew_def emptyAccount_def)
  from create_beyond_depth_transfers_then_fails [OF h, of ex_newAddress 1 7 1 50000 "[96]" 1]
  have "snd ?r \<and> m_excepted (fst ?r) = DepthExceeded
        \<and> getBalance (m_s (fst ?r)) 11 = getBalance (m_s ?e) 11 + 7
        \<and> getBalance (m_s (fst ?r)) 1 = getBalance (m_s ?e) 1 - 7"
    by (simp add: Let_def a getBalance_transferBalance)
  then show ?thesis
    using h by (simp add: b)
qed

subsection \<open>A message call to an address without code\<close>

text \<open>
  C5: a message call to a receiver without code is a pure value transfer. The bare
  \<^verbatim>\<open>call\<close> returns true and prepares no interpreter invocation, keeps all the gas it was
  given, produces no logs and no exception, and changes the ledger by the transfer
  only: the receiver exists afterwards with the value added to its balance, the sender
  has the value less, every other account is as before. On the transaction path, for
  a transaction that \<^verbatim>\<open>initialize\<close> has accepted (its gas limit covers the intrinsic
  gas), \<^verbatim>\<open>execute\<close> returns true with no exception and no invocation prepared, and
  leaves the ledger as it was but for the sender's purchase of the gas limit and the
  transfer of the value from the sender to the receiver: the receiver exists with the
  value added, the sender has the price of the gas limit and the value less, every other
  account is as before. After \<^verbatim>\<open>finalize\<close> the gas used is the intrinsic gas and there
  are no logs; the receiver still has its old balance plus the value, the sender has
  paid the value and the intrinsic gas at the gas price, the beneficiary has received
  that fee, and every account other than these three is as it was before \<^verbatim>\<open>execute\<close>.
\<close>

theorem call_without_code_is_value_transfer:
  "(getCode (m_s e) (cp_receiveAddress p) = [] \<longrightarrow>
      (let r = call p gasPrice origin e
       in snd r
          \<and> m_ext (fst r) = m_ext e
          \<and> gas (fst r) = cp_gas p
          \<and> logs (fst r) = logs e
          \<and> excepted (fst r) = excepted e
          \<and> m_s (fst r) = transferBalance (m_s e) (cp_senderAddress p) (cp_receiveAddress p) (cp_value p)
          \<and> (\<exists>y. accounts (m_s (fst r)) (cp_receiveAddress p) = Some y)
          \<and> (cp_senderAddress p \<noteq> cp_receiveAddress p \<longrightarrow>
                getBalance (m_s (fst r)) (cp_receiveAddress p)
                  = getBalance (m_s e) (cp_receiveAddress p) + cp_value p
                \<and> getBalance (m_s (fst r)) (cp_senderAddress p)
                  = getBalance (m_s e) (cp_senderAddress p) - cp_value p)
          \<and> (\<forall>b. b \<noteq> cp_senderAddress p \<and> b \<noteq> cp_receiveAddress p \<longrightarrow>
                accounts (m_s (fst r)) b = accounts (m_s e) b)))
   \<and> (m_t e = t \<and> tx_sender t = Some a \<and> tx_receiveAddress t = Some rcv
        \<and> getCode (m_s e) rcv = [] \<and> intrinsicGas c t \<le> uint (tx_gas t)
        \<and> \<not> excepted e \<and> m_ext e = None \<longrightarrow>
      (let x = execute c newAddr e; f = finalize (fst x)
       in snd x
          \<and> m_ext (fst x) = None
          \<and> \<not> excepted f
          \<and> uint (gasUsed f) = intrinsicGas c t
          \<and> logs f = []
          \<and> (a \<noteq> rcv \<longrightarrow>
                getBalance (m_s (fst x)) rcv = getBalance (m_s e) rcv + tx_value t)
          \<and> (a \<noteq> rcv \<and> rcv \<noteq> beneficiary (m_s e) \<longrightarrow>
                getBalance (m_s f) rcv = getBalance (m_s e) rcv + tx_value t)
          \<and> \<not> excepted (fst x)
          \<and> gas (fst x) = tx_gas t - word_of_int (intrinsicGas c t)
          \<and> m_s (fst x)
              = transferBalance (subBalance (m_s e) a (tx_gas t * tx_gasPrice t)) a rcv (tx_value t)
          \<and> (\<exists>y. accounts (m_s (fst x)) rcv = Some y)
          \<and> (a \<noteq> rcv \<longrightarrow>
                getBalance (m_s (fst x)) a
                  = getBalance (m_s e) a - tx_gas t * tx_gasPrice t - tx_value t)
          \<and> (\<forall>b. b \<noteq> a \<and> b \<noteq> rcv \<longrightarrow> accounts (m_s (fst x)) b = accounts (m_s e) b)
          \<and> (\<exists>y. accounts (m_s f) rcv = Some y)
          \<and> (a \<noteq> rcv \<and> a \<noteq> beneficiary (m_s e) \<longrightarrow>
                getBalance (m_s f) a
                  = getBalance (m_s e) a - tx_value t
                    - word_of_int (intrinsicGas c t) * tx_gasPrice t)
          \<and> (beneficiary (m_s e) \<noteq> a \<and> beneficiary (m_s e) \<noteq> rcv \<longrightarrow>
                getBalance (m_s f) (beneficiary (m_s e))
                  = getBalance (m_s e) (beneficiary (m_s e))
                    + word_of_int (intrinsicGas c t) * tx_gasPrice t)
          \<and> (\<forall>b. b \<noteq> a \<and> b \<noteq> rcv \<and> b \<noteq> beneficiary (m_s e) \<longrightarrow>
                accounts (m_s f) b = accounts (m_s e) b)))"
proof (intro conjI impI)
  assume nc: "getCode (m_s e) (cp_receiveAddress p) = []"
  show "let r = call p gasPrice origin e
       in snd r
          \<and> m_ext (fst r) = m_ext e
          \<and> gas (fst r) = cp_gas p
          \<and> logs (fst r) = logs e
          \<and> excepted (fst r) = excepted e
          \<and> m_s (fst r) = transferBalance (m_s e) (cp_senderAddress p) (cp_receiveAddress p) (cp_value p)
          \<and> (\<exists>y. accounts (m_s (fst r)) (cp_receiveAddress p) = Some y)
          \<and> (cp_senderAddress p \<noteq> cp_receiveAddress p \<longrightarrow>
                getBalance (m_s (fst r)) (cp_receiveAddress p)
                  = getBalance (m_s e) (cp_receiveAddress p) + cp_value p
                \<and> getBalance (m_s (fst r)) (cp_senderAddress p)
                  = getBalance (m_s e) (cp_senderAddress p) - cp_value p)
          \<and> (\<forall>b. b \<noteq> cp_senderAddress p \<and> b \<noteq> cp_receiveAddress p \<longrightarrow>
                accounts (m_s (fst r)) b = accounts (m_s e) b)"
    by (simp add: call_no_code [OF nc] Let_def gas_def logs_def excepted_def
        exists_transferBalance getBalance_transferBalance accounts_transferBalance_other)
next
  assume h: "m_t e = t \<and> tx_sender t = Some a \<and> tx_receiveAddress t = Some rcv
        \<and> getCode (m_s e) rcv = [] \<and> intrinsicGas c t \<le> uint (tx_gas t)
        \<and> \<not> excepted e \<and> m_ext e = None"
  define s1 where "s1 = subBalance (m_s e) a (tx_gas t * tx_gasPrice t)"
  define g where "g = tx_gas t - word_of_int (intrinsicGas c t)"
  define s2 where "s2 = transferBalance s1 a rcv (tx_value t)"
  have nc: "getCode s1 rcv = []"
    using h by (simp add: s1_def getCode_subBalance)
  have x: "execute c newAddr e = (e\<lparr>m_s := s2, m_outRef := (0, 0), m_gas := g\<rparr>, True)"
    using h nc by (simp add: execute_def Let_def call_no_code s1_def g_def s2_def)
  let ?e1 = "e\<lparr>m_s := s2, m_outRef := (0, 0), m_gas := g\<rparr>"
  have ne: "\<not> excepted ?e1"
    using h by (simp add: excepted_def)
  have rc: "refundCounter ?e1 = 0"
    using h by (simp add: refundCounter_def)
  have fg: "m_gas (finalize ?e1) = g"
    using ne by (simp add: finalize_def Let_def rc)
  have ft: "m_t (finalize ?e1) = t"
    using h by (simp add: finalize_def Let_def)
  have fl: "m_logs (finalize ?e1) = []"
    using h ne by (simp add: finalize_def Let_def emptySubState_def)
  have fe: "\<not> excepted (finalize ?e1)"
    using h by (simp add: finalize_def Let_def excepted_def)
  have "gasUsed (finalize ?e1) = tx_gas t - g"
    by (simp only: gasUsed_def fg ft)
  then have "gasUsed (finalize ?e1) = word_of_int (intrinsicGas c t)"
    by (simp add: g_def)
  moreover have "uint (word_of_int (intrinsicGas c t) :: u256) = intrinsicGas c t"
    using h by (intro uint_intrinsicGas [of c t "tx_gas t"]) simp
  ultimately have gu: "uint (gasUsed (finalize ?e1)) = intrinsicGas c t"
    by simp
  have b1: "getBalance s2 rcv = getBalance (m_s e) rcv + tx_value t" if "a \<noteq> rcv"
    using that by (simp add: s2_def s1_def getBalance_transferBalance getBalance_subBalance)
  have fs: "m_s (finalize ?e1) =
      killAll (addBalance (addBalance s2 a (g * tx_gasPrice t)) (beneficiary s2)
                 ((tx_gas t - g) * tx_gasPrice t)) {}"
    using h ne by (simp add: finalize_def Let_def rc emptySubState_def beneficiary_addBalance)
  have bs2: "beneficiary s2 = beneficiary (m_s e)"
    by (simp add: s2_def s1_def transferBalance_def addBalance_def subBalance_def)
  have b2: "getBalance (m_s (finalize ?e1)) rcv = getBalance (m_s e) rcv + tx_value t"
    if "a \<noteq> rcv" "rcv \<noteq> beneficiary (m_s e)"
    using that by (simp add: fs bs2 getBalance_killAll getBalance_addBalance b1)
  have s2x: "s2 = transferBalance (subBalance (m_s e) a (tx_gas t * tx_gasPrice t)) a rcv (tx_value t)"
    by (simp add: s2_def s1_def)
  have ex2: "\<exists>y. accounts s2 rcv = Some y"
    by (simp add: s2_def exists_transferBalance)
  have b3: "getBalance s2 a = getBalance (m_s e) a - tx_gas t * tx_gasPrice t - tx_value t"
    if "a \<noteq> rcv"
    using that by (simp add: s2_def s1_def getBalance_transferBalance getBalance_subBalance)
  have o2: "accounts s2 b = accounts (m_s e) b" if "b \<noteq> a" "b \<noteq> rcv" for b
    using that
    by (simp add: s2_def s1_def accounts_transferBalance_other accounts_subBalance_other)
  have gi: "(tx_gas t - g) * tx_gasPrice t = word_of_int (intrinsicGas c t) * tx_gasPrice t"
    by (simp add: g_def)
  have exf: "\<exists>y. accounts (m_s (finalize ?e1)) rcv = Some y"
  proof (cases "rcv = beneficiary (m_s e)")
    case True
    then show ?thesis
      by (simp add: fs bs2 accounts_killAll_empty exists_addBalance)
  next
    case nb: False
    show ?thesis
    proof (cases "rcv = a")
      case True
      then show ?thesis
        using nb by (simp add: fs bs2 accounts_killAll_empty accounts_addBalance_other exists_addBalance)
    next
      case False
      then show ?thesis
        using nb ex2 by (simp add: fs bs2 accounts_killAll_empty accounts_addBalance_other)
    qed
  qed
  have b4: "getBalance (m_s (finalize ?e1)) a
              = getBalance (m_s e) a - tx_value t - word_of_int (intrinsicGas c t) * tx_gasPrice t"
    if "a \<noteq> rcv" "a \<noteq> beneficiary (m_s e)"
  proof -
    have "getBalance (m_s (finalize ?e1)) a = getBalance s2 a + g * tx_gasPrice t"
      using that by (simp add: fs bs2 getBalance_killAll getBalance_addBalance)
    also have "\<dots> = getBalance (m_s e) a - tx_gas t * tx_gasPrice t - tx_value t
                     + (tx_gas t - word_of_int (intrinsicGas c t)) * tx_gasPrice t"
      using that by (simp add: b3 g_def)
    also have "\<dots> = getBalance (m_s e) a - tx_value t
                     - word_of_int (intrinsicGas c t) * tx_gasPrice t"
      by (simp add: algebra_simps)
    finally show ?thesis .
  qed
  have b5: "getBalance (m_s (finalize ?e1)) (beneficiary (m_s e))
              = getBalance (m_s e) (beneficiary (m_s e))
                + word_of_int (intrinsicGas c t) * tx_gasPrice t"
    if "beneficiary (m_s e) \<noteq> a" "beneficiary (m_s e) \<noteq> rcv"
  proof -
    have "getBalance s2 (beneficiary (m_s e)) = getBalance (m_s e) (beneficiary (m_s e))"
      using that by (simp add: getBalance_def accountOrNew_def o2)
    then show ?thesis
      using that by (simp add: fs bs2 getBalance_killAll getBalance_addBalance gi)
  qed
  have o3: "accounts (m_s (finalize ?e1)) b = accounts (m_s e) b"
    if "b \<noteq> a" "b \<noteq> rcv" "b \<noteq> beneficiary (m_s e)" for b
    using that by (simp add: fs bs2 accounts_killAll_empty accounts_addBalance_other o2)
  show "let x = execute c newAddr e; f = finalize (fst x)
       in snd x
          \<and> m_ext (fst x) = None
          \<and> \<not> excepted f
          \<and> uint (gasUsed f) = intrinsicGas c t
          \<and> logs f = []
          \<and> (a \<noteq> rcv \<longrightarrow>
                getBalance (m_s (fst x)) rcv = getBalance (m_s e) rcv + tx_value t)
          \<and> (a \<noteq> rcv \<and> rcv \<noteq> beneficiary (m_s e) \<longrightarrow>
                getBalance (m_s f) rcv = getBalance (m_s e) rcv + tx_value t)
          \<and> \<not> excepted (fst x)
          \<and> gas (fst x) = tx_gas t - word_of_int (intrinsicGas c t)
          \<and> m_s (fst x)
              = transferBalance (subBalance (m_s e) a (tx_gas t * tx_gasPrice t)) a rcv (tx_value t)
          \<and> (\<exists>y. accounts (m_s (fst x)) rcv = Some y)
          \<and> (a \<noteq> rcv \<longrightarrow>
                getBalance (m_s (fst x)) a
                  = getBalance (m_s e) a - tx_gas t * tx_gasPrice t - tx_value t)
          \<and> (\<forall>b. b \<noteq> a \<and> b \<noteq> rcv \<longrightarrow> accounts (m_s (fst x)) b = accounts (m_s e) b)
          \<and> (\<exists>y. accounts (m_s f) rcv = Some y)
          \<and> (a \<noteq> rcv \<and> a \<noteq> beneficiary (m_s e) \<longrightarrow>
                getBalance (m_s f) a
                  = getBalance (m_s e) a - tx_value t
                    - word_of_int (intrinsicGas c t) * tx_gasPrice t)
          \<and> (beneficiary (m_s e) \<noteq> a \<and> beneficiary (m_s e) \<noteq> rcv \<longrightarrow>
                getBalance (m_s f) (beneficiary (m_s e))
                  = getBalance (m_s e) (beneficiary (m_s e))
                    + word_of_int (intrinsicGas c t) * tx_gasPrice t)
          \<and> (\<forall>b. b \<noteq> a \<and> b \<noteq> rcv \<and> b \<noteq> beneficiary (m_s e) \<longrightarrow>
                accounts (m_s f) b = accounts (m_s e) b)"
    using h fe gu fl b1 b2 ne ex2 b3 o2 exf b4 b5 o3
    by (simp add: x Let_def logs_def gas_def s2x [symmetric] g_def [symmetric])
qed

theorem call_without_code_witness:
  "getCode (m_s ex_executive) (cp_receiveAddress ex_parameters) = []
   \<and> snd (call ex_parameters 1 1 ex_executive)
   \<and> getBalance (m_s (fst (call ex_parameters 1 1 ex_executive))) 2 = 5
   \<and> getBalance (m_s (fst (call ex_parameters 1 1 ex_executive))) 1 = 99995
   \<and> m_t ex_executive = ex_transaction
   \<and> tx_sender ex_transaction = Some 1
   \<and> tx_receiveAddress ex_transaction = Some 2
   \<and> intrinsicGas ex_schedule ex_transaction \<le> uint (tx_gas ex_transaction)
   \<and> \<not> excepted ex_executive
   \<and> m_ext ex_executive = None
   \<and> snd (execute ex_schedule ex_newAddress ex_executive)
   \<and> uint (gasUsed (finalize (fst (execute ex_schedule ex_newAddress ex_executive)))) = 21000
   \<and> logs (finalize (fst (execute ex_schedule ex_newAddress ex_executive))) = []
   \<and> getBalance (m_s (finalize (fst (execute ex_schedule ex_newAddress ex_executive)))) 2 = 5
   \<and> getBalance (m_s (fst (execute ex_schedule ex_newAddress ex_executive))) 1 = 78995
   \<and> getBalance (m_s (finalize (fst (execute ex_schedule ex_newAddress ex_executive)))) 1 = 78995
   \<and> getBalance (m_s (finalize (fst (execute ex_schedule ex_newAddress ex_executive)))) 9 = 21000
   \<and> accounts (m_s (finalize (fst (execute ex_schedule ex_newAddress ex_executive)))) 3 = None"
proof -
  let ?e = "ex_executive"
  let ?r = "call ex_parameters 1 1 ?e"
  let ?x = "execute ex_schedule ex_newAddress ?e"
  have p: "cp_senderAddress ex_parameters = 1" "cp_receiveAddress ex_parameters = 2"
    "cp_value ex_parameters = 5"
    by (simp_all add: ex_parameters_def)
  have t: "m_t ?e = ex_transaction" "tx_sender ex_transaction = Some 1"
    "tx_receiveAddress ex_transaction = Some 2" "tx_value ex_transaction = 5"
    "\<not> excepted ?e" "m_ext ?e = None"
    by (simp_all add: ex_executive_def Executive_ctor_def ex_transaction_def excepted_def)
  have i: "intrinsicGas ex_schedule ex_transaction = 21000"
    by (simp add: intrinsicGas_def isCreation_def ex_schedule_def ex_transaction_def)
  have "tx_gas ex_transaction = 21000"
    by (simp add: ex_transaction_def)
  then have l: "intrinsicGas ex_schedule ex_transaction \<le> uint (tx_gas ex_transaction)"
    by (simp add: i)
  have c: "getCode (m_s ?e) 2 = []"
    by (simp add: ex_executive_def Executive_ctor_def ex_ledger_def getCode_def
        accountOrNew_def emptyAccount_def)
  have b: "getBalance (m_s ?e) 2 = 0" "getBalance (m_s ?e) 1 = 100000" "beneficiary (m_s ?e) = 9"
    by (simp_all add: ex_executive_def Executive_ctor_def ex_ledger_def getBalance_def
        accountOrNew_def emptyAccount_def)
  have g: "tx_gas ex_transaction = 21000" "tx_gasPrice ex_transaction = 1"
    by (simp_all add: ex_transaction_def)
  have a3: "getBalance (m_s ex_executive) 9 = 0" "accounts (m_s ex_executive) 3 = None"
    by (simp_all add: ex_executive_def Executive_ctor_def ex_ledger_def getBalance_def
        accountOrNew_def emptyAccount_def)
  note w = call_without_code_is_value_transfer
    [of ?e ex_parameters 1 1 ex_transaction 1 2 ex_schedule ex_newAddress]
  from w c have "snd ?r \<and> getBalance (m_s (fst ?r)) 2 = getBalance (m_s ?e) 2 + 5
        \<and> getBalance (m_s (fst ?r)) 1 = getBalance (m_s ?e) 1 - 5"
    by (simp add: Let_def p getBalance_transferBalance)
  moreover from w t l c have "snd ?x
        \<and> uint (gasUsed (finalize (fst ?x))) = intrinsicGas ex_schedule ex_transaction
        \<and> logs (finalize (fst ?x)) = []
        \<and> getBalance (m_s (finalize (fst ?x))) 2 = getBalance (m_s ?e) 2 + 5
        \<and> getBalance (m_s (fst ?x)) 1
            = getBalance (m_s ?e) 1 - tx_gas ex_transaction * tx_gasPrice ex_transaction - 5
        \<and> getBalance (m_s (finalize (fst ?x))) 1
            = getBalance (m_s ?e) 1 - 5
              - word_of_int (intrinsicGas ex_schedule ex_transaction) * tx_gasPrice ex_transaction
        \<and> getBalance (m_s (finalize (fst ?x))) 9
            = getBalance (m_s ?e) 9
              + word_of_int (intrinsicGas ex_schedule ex_transaction) * tx_gasPrice ex_transaction
        \<and> accounts (m_s (finalize (fst ?x))) 3 = accounts (m_s ?e) 3"
    by (simp add: Let_def b getBalance_transferBalance getBalance_subBalance)
  ultimately show ?thesis
    using t l c by (simp add: p b i g a3)
qed

end
